theory Spec2Isabelle
  imports Main
begin

section \<open>The lexicon store of the dictionary application\<close>

text \<open>
  The server actions of \<^verbatim>\<open>src/lib/actions.ts\<close> (\<^verbatim>\<open>addWord\<close>, \<^verbatim>\<open>addDefinition\<close>,
  \<^verbatim>\<open>addExample\<close>, \<^verbatim>\<open>addMention\<close>, \<^verbatim>\<open>Report\<close> and the helper \<^verbatim>\<open>reportElement\<close>)
  as functions from the submitted form and the database to the returned \<^verbatim>\<open>State\<close> and
  the database afterwards. JavaScript strings are \<open>string\<close>s whose characters stand for
  code units below 256, numbers are unbounded integers (the scores stay far below
  \<open>2 ^ 53\<close>), and an exception thrown inside a \<^verbatim>\<open>try\<close> block is a value \<open>Inl e\<close> that the
  enclosing action turns into the result of its \<^verbatim>\<open>catch\<close> block.
\<close>

subsection \<open>Record types (\<^verbatim>\<open>@/lib/types\<close>)\<close>

text \<open>
  Modelled from the spec: the types \<^verbatim>\<open>Word\<close>, \<^verbatim>\<open>Definition\<close>, \<^verbatim>\<open>Example\<close> and \<^verbatim>\<open>Mention\<close>
  of the missing module \<^verbatim>\<open>@/lib/types\<close>, with the fields that the actions build and
  read: the identifying strings and the scores \<^verbatim>\<open>V\<close> (approvals) and \<^verbatim>\<open>NV\<close>
  (disapprovals). The field names carry the record's initial.
\<close>

record Definition =
  d_text :: string
  d_reference :: string
  d_V :: int
  d_NV :: int

record Example =
  e_text :: string
  e_reference :: string
  e_V :: int
  e_NV :: int

record Mention =
  m_title :: string
  m_hyperlink :: string
  m_V :: int
  m_NV :: int

record Word =
  w_text :: string
  w_definitions :: "Definition list"
  w_examples :: "Example list"
  w_mentions :: "Mention list"
  w_V :: int
  w_NV :: int

subsection \<open>The \<^verbatim>\<open>State\<close> an action returns\<close>

datatype message_type = success | warning | error

record Message =
  msg_text :: string
  msg_type :: message_type

text \<open>
  An issue reported by the schema library for one field. The library words its
  messages itself; the model keeps which check failed. \<open>custom\<close> carries a message
  that the source spells out.
\<close>

datatype issue = invalid_type | too_small nat | too_big nat | custom string

type_synonym fieldErrors = "(string \<times> issue list) list"

record State =
  message :: Message
  errors :: "fieldErrors option"

subsection \<open>Forms and their schemas\<close>

text \<open>
  \<^verbatim>\<open>formData.get(name)\<close> is \<open>None\<close> (\<^verbatim>\<open>null\<close>) for a field the form does not hold. An
  uploaded file as a value fails the schemas as \<^verbatim>\<open>null\<close> does and is not told apart.
\<close>

type_synonym FormData = "string \<Rightarrow> string option"

text \<open>
  \<^verbatim>\<open>z.string().min(lo).max(hi)\<close>: a value that is no string fails with one issue and the
  length checks are not run; \<open>None\<close> as a bound is a check the schema does not have.
\<close>

definition z_string :: "nat option \<Rightarrow> nat option \<Rightarrow> string option \<Rightarrow> issue list" where
  "z_string lo hi v =
     (case v of
        None \<Rightarrow> [invalid_type]
      | Some s \<Rightarrow>
          (case lo of None \<Rightarrow> [] | Some n \<Rightarrow> if length s < n then [too_small n] else []) @
          (case hi of None \<Rightarrow> [] | Some n \<Rightarrow> if n < length s then [too_big n] else []))"

definition startsWith :: "string \<Rightarrow> string \<Rightarrow> bool" where
  "startsWith s p = (take (length p) s = p)"

definition z_startsWith :: "string \<Rightarrow> string \<Rightarrow> string option \<Rightarrow> issue list" where
  "z_startsWith p msg v =
     (case v of
        None \<Rightarrow> [invalid_type]
      | Some s \<Rightarrow> if startsWith s p then [] else [custom msg])"

text \<open>The fields of \<^verbatim>\<open>formSchema\<close>, each with its check.\<close>

definition formSchema :: "string \<Rightarrow> string option \<Rightarrow> issue list" where
  "formSchema field =
     (if field = ''word_text'' then z_string (Some 2) (Some 50)
      else if field = ''def_content'' then z_string (Some 10) (Some 255)
      else if field = ''def_reference'' then z_string (Some 10) (Some 45)
      else if field = ''example_text'' then z_string (Some 10) (Some 145)
      else if field = ''example_reference'' then z_string None (Some 45)
      else if field = ''mention_title'' then z_string (Some 10) (Some 45)
      else if field = ''mention_hyperlink'' then z_startsWith ''https://'' ''Must provide secure URL''
      else z_string None None)"

text \<open>
  \<^verbatim>\<open>error.flatten().fieldErrors\<close> of a schema picking the fields \<open>fs\<close>: the picked fields
  that have an issue, each with its issues.
\<close>

definition flatten_fieldErrors :: "string list \<Rightarrow> FormData \<Rightarrow> fieldErrors" where
  "flatten_fieldErrors fs formData =
     filter (\<lambda>(f, is). is \<noteq> []) (map (\<lambda>f. (f, formSchema f (formData f))) fs)"

text \<open>
  \<^verbatim>\<open>safeParse\<close> of a schema picking two or three fields: \<open>Inl\<close> the field errors, or
  \<open>Inr\<close> the parsed values in the order of the pick.
\<close>

definition safeParse3 :: "string \<Rightarrow> string \<Rightarrow> string \<Rightarrow> FormData \<Rightarrow> fieldErrors + string \<times> string \<times> string" where
  "safeParse3 f1 f2 f3 formData =
     (case (formData f1, formData f2, formData f3) of
        (Some a, Some b, Some c) \<Rightarrow>
          if flatten_fieldErrors [f1, f2, f3] formData = [] then Inr (a, b, c)
          else Inl (flatten_fieldErrors [f1, f2, f3] formData)
      | _ \<Rightarrow> Inl (flatten_fieldErrors [f1, f2, f3] formData))"

definition safeParse2 :: "string \<Rightarrow> string \<Rightarrow> FormData \<Rightarrow> fieldErrors + string \<times> string" where
  "safeParse2 f1 f2 formData =
     (case (formData f1, formData f2) of
        (Some a, Some b) \<Rightarrow>
          if flatten_fieldErrors [f1, f2] formData = [] then Inr (a, b)
          else Inl (flatten_fieldErrors [f1, f2] formData)
      | _ \<Rightarrow> Inl (flatten_fieldErrors [f1, f2] formData))"

definition addDefinitionSchema :: "FormData \<Rightarrow> fieldErrors + string \<times> string \<times> string" where
  "addDefinitionSchema = safeParse3 ''word_text'' ''def_content'' ''def_reference''"

definition addExampleSchema :: "FormData \<Rightarrow> fieldErrors + string \<times> string \<times> string" where
  "addExampleSchema = safeParse3 ''word_text'' ''example_text'' ''example_reference''"

definition addMentionSchema :: "FormData \<Rightarrow> fieldErrors + string \<times> string \<times> string" where
  "addMentionSchema = safeParse3 ''word_text'' ''mention_title'' ''mention_hyperlink''"

definition reportSchema :: "FormData \<Rightarrow> fieldErrors + string \<times> string" where
  "reportSchema = safeParse2 ''word_text'' ''report_element''"

subsection \<open>String operations\<close>

text \<open>
  \<^verbatim>\<open>toLowerCase\<close> on code units below 256: the letters A to Z and the capital letters of
  the Latin-1 block (192 to 222 without the multiplication sign 215) move up by 32.
\<close>

definition toLowerCase_char :: "char \<Rightarrow> char" where
  "toLowerCase_char c =
     (let n = (of_char c :: nat)
      in if (65 \<le> n \<and> n \<le> 90) \<or> (192 \<le> n \<and> n \<le> 222 \<and> n \<noteq> 215) then char_of (n + 32) else c)"

definition toLowerCase :: "string \<Rightarrow> string" where
  "toLowerCase s = map toLowerCase_char s"

text \<open>\<^verbatim>\<open>s.slice(0, n)\<close>: the first \<open>n\<close> code units, the whole string when it is shorter.\<close>

definition slice0 :: "string \<Rightarrow> nat \<Rightarrow> string" where
  "slice0 s n = take n s"

subsection \<open>The database (\<^verbatim>\<open>@/lib/db\<close>)\<close>

text \<open>
  The database module is not among the sources at hand; the actions call it as
  \<^verbatim>\<open>(await getDB()).get(key)\<close> and then \<^verbatim>\<open>getWhere\<close>, \<^verbatim>\<open>add\<close>, \<^verbatim>\<open>updateWhere\<close>,
  \<^verbatim>\<open>getIndexOf\<close>, \<^verbatim>\<open>get\<close> and \<^verbatim>\<open>update\<close> on the shard it returns. A database maps a
  shard key to the ordered words of that shard; a key without storage has no entry.
  The storage medium is taken not to fail.
\<close>

type_synonym Shard = "Word list"

type_synonym DB = "string \<Rightarrow> Shard option"

text \<open>The words held under a key, none when the key has no storage yet.\<close>

definition shard :: "DB \<Rightarrow> string \<Rightarrow> Shard" where
  "shard db key = (case db key of None \<Rightarrow> [] | Some ws \<Rightarrow> ws)"

text \<open>
  Modelled from the spec: \<^verbatim>\<open>getDB().get(key)\<close> of the missing module, the spec's
  \<^verbatim>\<open>shardFor\<close>: always succeeds and creates the shard's storage if absent.
\<close>

definition DB_get :: "DB \<Rightarrow> string \<Rightarrow> DB" where
  "DB_get db key = (case db key of None \<Rightarrow> db(key \<mapsto> []) | Some ws \<Rightarrow> db)"

text \<open>
  Modelled from the spec: \<^verbatim>\<open>getWhere\<close> of the missing module, the spec's
  \<^verbatim>\<open>findFirst\<close>: a linear scan in insertion order that returns the first word
  satisfying the predicate. \<open>None\<close> is the result without a \<^verbatim>\<open>text\<close> that the callers
  test for.
\<close>

fun getWhere :: "(Word \<Rightarrow> bool) \<Rightarrow> Shard \<Rightarrow> Word option" where
  "getWhere p [] = None"
| "getWhere p (w # ws) = (if p w then Some w else getWhere p ws)"

text \<open>
  Modelled from the spec: \<^verbatim>\<open>add\<close> of the missing module, the spec's \<^verbatim>\<open>append\<close>: adds the
  word at the end, with no uniqueness check.
\<close>

definition add :: "Word \<Rightarrow> Shard \<Rightarrow> Shard" where
  "add w ws = ws @ [w]"

text \<open>
  Modelled from the spec: \<^verbatim>\<open>getIndexOf\<close> of the missing module, the spec's
  \<^verbatim>\<open>indexOf\<close>: same scan as \<^verbatim>\<open>findFirst\<close>, positions instead of values. The caller
  takes element \<^verbatim>\<open>[0]\<close> of what it returns, so the model returns the positions of all
  matches in insertion order.
\<close>

definition getIndexOf :: "(Word \<Rightarrow> bool) \<Rightarrow> Shard \<Rightarrow> nat list" where
  "getIndexOf p ws = filter (\<lambda>i. p (ws ! i)) [0 ..< length ws]"

text \<open>
  Modelled from the spec: \<^verbatim>\<open>get\<close> on a shard of the missing module: the word at a
  position, or a result without a \<^verbatim>\<open>text\<close> (\<open>None\<close>) for \<^verbatim>\<open>undefined\<close> and for a
  position outside the shard.
\<close>

definition sf_get :: "Shard \<Rightarrow> nat option \<Rightarrow> Word option" where
  "sf_get ws index =
     (case index of
        None \<Rightarrow> None
      | Some i \<Rightarrow> if i < length ws then Some (ws ! i) else None)"

text \<open>
  Modelled from the spec: \<^verbatim>\<open>update\<close> of the missing module, the spec's \<^verbatim>\<open>updateAt\<close>:
  replaces the word at the position by the update function's result; an invalid
  position (\<^verbatim>\<open>undefined\<close>, or one outside the shard) fails with \<^verbatim>\<open>IndexOutOfRange\<close>
  (\<open>None\<close>), which the caller's \<^verbatim>\<open>catch\<close> block receives.
\<close>

definition update :: "nat option \<Rightarrow> (Word \<Rightarrow> Word) \<Rightarrow> Shard \<Rightarrow> Shard option" where
  "update index f ws =
     (case index of
        None \<Rightarrow> None
      | Some i \<Rightarrow> if i < length ws then Some (ws[i := f (ws ! i)]) else None)"

text \<open>
  Modelled from the spec: \<^verbatim>\<open>updateWhere\<close> of the missing module: locates the first
  match as \<^verbatim>\<open>findFirst\<close> does and applies the update function; a no-op, not an error,
  if nothing matches. The update function returns the whole replacement word (the
  patch of the source merged over the current word).
\<close>

fun updateWhere :: "(Word \<Rightarrow> bool) \<Rightarrow> (Word \<Rightarrow> Word) \<Rightarrow> Shard \<Rightarrow> Shard" where
  "updateWhere p f [] = []"
| "updateWhere p f (w # ws) = (if p w then f w # ws else w # updateWhere p f ws)"

text \<open>
  Modelled from the spec: the lookup of a word by its text, which no source file at
  hand holds: the text is canonicalised to lowercase, the shard is the one of its
  first two characters, and the first word with that text is returned.
\<close>

definition lookup :: "string \<Rightarrow> DB \<Rightarrow> Word option" where
  "lookup t db =
     getWhere (\<lambda>word. w_text word = toLowerCase t) (shard db (slice0 (toLowerCase t) 2))"

subsection \<open>Results shared by the actions\<close>

definition mk_State :: "string \<Rightarrow> message_type \<Rightarrow> fieldErrors option \<Rightarrow> State" where
  "mk_State t ty es = \<lparr>message = \<lparr>msg_text = t, msg_type = ty\<rparr>, errors = es\<rparr>"

text \<open>What every action returns when its form does not pass the schema.\<close>

definition validation_failed :: "fieldErrors \<Rightarrow> State" where
  "validation_failed es = mk_State ''Error submitting the form!'' error (Some es)"

text \<open>What the \<^verbatim>\<open>catch\<close> block of every action returns.\<close>

definition something_went_wrong :: State where
  "something_went_wrong = mk_State ''Something went wrong!'' error None"

subsection \<open>\<^verbatim>\<open>addWord\<close>\<close>

definition newWord :: "string \<Rightarrow> string \<Rightarrow> string \<Rightarrow> Word" where
  "newWord word_text def_content def_reference =
     \<lparr>w_text = toLowerCase word_text,
      w_definitions = [\<lparr>d_text = def_content, d_reference = def_reference, d_V = 1, d_NV = 0\<rparr>],
      w_examples = [\<lparr>e_text = [], e_reference = [], e_V = 1, e_NV = 0\<rparr>],
      w_mentions = [\<lparr>m_title = [], m_hyperlink = [], m_V = 1, m_NV = 0\<rparr>],
      w_V = 1,
      w_NV = 0\<rparr>"

text \<open>\<^verbatim>\<open>exists.text\<close> as a condition: a result with a non-empty text.\<close>

definition has_text :: "Word option \<Rightarrow> bool" where
  "has_text r = (case r of None \<Rightarrow> False | Some w \<Rightarrow> w_text w \<noteq> [])"

definition addWord :: "FormData \<Rightarrow> DB \<Rightarrow> State \<times> DB" where
  "addWord formData db =
     (case addDefinitionSchema formData of
        Inl es \<Rightarrow> (validation_failed es, db)
      | Inr (word_text, def_content, def_reference) \<Rightarrow>
          (let nw = newWord word_text def_content def_reference;
               key = slice0 (w_text nw) 2;
               db1 = DB_get db key;
               sf = shard db1 key;
               exists = getWhere (\<lambda>word. w_text word = w_text nw) sf
           in if has_text exists
              then (mk_State (w_text nw @ '' already exists.'') warning
                      (Some [(''word_text'', [custom ''word already exists''])]), db1)
              else (mk_State (w_text nw @ '' has been successfully added.'') success None,
                    db1(key \<mapsto> add nw sf))))"

subsection \<open>\<^verbatim>\<open>addDefinition\<close>, \<^verbatim>\<open>addExample\<close>, \<^verbatim>\<open>addMention\<close>\<close>

definition addDefinition :: "FormData \<Rightarrow> DB \<Rightarrow> State \<times> DB" where
  "addDefinition formData db =
     (case addDefinitionSchema formData of
        Inl es \<Rightarrow> (validation_failed es, db)
      | Inr (word_text, def_content, def_reference) \<Rightarrow>
          (let newDefinition = \<lparr>d_text = def_content, d_reference = def_reference, d_V = 1, d_NV = 0\<rparr>;
               key = slice0 word_text 2;
               db1 = DB_get db key;
               sf = shard db1 key;
               exists = getWhere (\<lambda>word. find (\<lambda>def. d_reference def = d_reference newDefinition)
                                             (w_definitions word) \<noteq> None) sf
           in if has_text exists
              then (mk_State ''Failed: there is already a definition from the same reference included!''
                      error None, db1)
              else (mk_State ''Your definition has been added successfully. Refresh the page and check it out.''
                      success None,
                    db1(key \<mapsto> updateWhere (\<lambda>word. w_text word = word_text)
                                   (\<lambda>prev. prev\<lparr>w_definitions := w_definitions prev @ [newDefinition]\<rparr>) sf))))"

definition addExample :: "FormData \<Rightarrow> DB \<Rightarrow> State \<times> DB" where
  "addExample formData db =
     (case addExampleSchema formData of
        Inl es \<Rightarrow> (validation_failed es, db)
      | Inr (word_text, example_text, example_reference) \<Rightarrow>
          (let newExample = \<lparr>e_text = example_text, e_reference = example_reference, e_V = 1, e_NV = 0\<rparr>;
               key = slice0 word_text 2;
               db1 = DB_get db key;
               sf = shard db1 key
           in (mk_State ''The example has been added successfully. Refresh the page and check it out.''
                 success None,
               db1(key \<mapsto> updateWhere (\<lambda>word. w_text word = word_text)
                              (\<lambda>prev. prev\<lparr>w_examples := w_examples prev @ [newExample]\<rparr>) sf))))"

definition addMention :: "FormData \<Rightarrow> DB \<Rightarrow> State \<times> DB" where
  "addMention formData db =
     (case addMentionSchema formData of
        Inl es \<Rightarrow> (validation_failed es, db)
      | Inr (word_text, mention_title, mention_hyperlink) \<Rightarrow>
          (let newMention = \<lparr>m_title = mention_title, m_hyperlink = mention_hyperlink, m_V = 1, m_NV = 0\<rparr>;
               key = slice0 word_text 2;
               db1 = DB_get db key;
               sf = shard db1 key
           in (mk_State ''The data has been added successfully. Refresh the page and check it out.''
                 success None,
               db1(key \<mapsto> updateWhere (\<lambda>word. w_text word = word_text)
                              (\<lambda>prev. prev\<lparr>w_mentions := w_mentions prev @ [newMention]\<rparr>) sf))))"

subsection \<open>\<^verbatim>\<open>reportElement\<close>\<close>

datatype js_error = ReferenceError string | TypeError string | Error string

record Element =
  el_type :: string
  el_id :: string

text \<open>
  \<^verbatim>\<open>reportElement\<close> reads the identifiers \<^verbatim>\<open>element_id\<close> and \<^verbatim>\<open>element\<close>. The module
  declares neither as a variable, a parameter or an import (\<^verbatim>\<open>Element\<close> is a type
  only), so evaluating either throws a \<^verbatim>\<open>ReferenceError\<close>.
\<close>

definition element_id :: "js_error + string" where
  "element_id = Inl (ReferenceError ''element_id is not defined'')"

definition element :: "js_error + Element" where
  "element = Inl (ReferenceError ''element is not defined'')"

text \<open>The map \<^verbatim>\<open>identifiers\<close> from an element type to the name of its id attribute.\<close>

definition identifiers :: "string \<Rightarrow> string option" where
  "identifiers t =
     (if t = ''word'' then Some ''word_text''
      else if t = ''definition'' then Some ''def_reference''
      else if t = ''example'' then Some ''example_text''
      else if t = ''mention'' then Some ''mention_hyperlink''
      else None)"

text \<open>
  \<^verbatim>\<open>record[name]\<close> as far as a comparison with a string by \<^verbatim>\<open>===\<close> can tell: the value
  of a string property, \<open>None\<close> for a property the record lacks (and for a number).
\<close>

definition Definition_prop :: "Definition \<Rightarrow> string option \<Rightarrow> string option" where
  "Definition_prop d name =
     (if name = Some ''text'' then Some (d_text d)
      else if name = Some ''reference'' then Some (d_reference d)
      else None)"

definition Example_prop :: "Example \<Rightarrow> string option \<Rightarrow> string option" where
  "Example_prop e name =
     (if name = Some ''text'' then Some (e_text e)
      else if name = Some ''reference'' then Some (e_reference e)
      else None)"

definition Mention_prop :: "Mention \<Rightarrow> string option \<Rightarrow> string option" where
  "Mention_prop m name =
     (if name = Some ''title'' then Some (m_title m)
      else if name = Some ''hyperlink'' then Some (m_hyperlink m)
      else None)"

text \<open>
  \<^verbatim>\<open>Array.prototype.findIndex\<close> with a callback that may throw: the position of the
  first element the callback accepts, \<open>-1\<close> when there is none; an exception of the
  callback ends the scan.
\<close>

fun findIndex :: "('a \<Rightarrow> js_error + bool) \<Rightarrow> 'a list \<Rightarrow> js_error + int" where
  "findIndex p [] = Inr (- 1)"
| "findIndex p (x # xs) =
     (case p x of
        Inl e \<Rightarrow> Inl e
      | Inr b \<Rightarrow>
          if b then Inr 0
          else (case findIndex p xs of
                  Inl e \<Rightarrow> Inl e
                | Inr i \<Rightarrow> Inr (if i < 0 then - 1 else i + 1)))"

text \<open>
  \<^verbatim>\<open>xs[i].NV += 2\<close>: the element at a position outside the array is \<^verbatim>\<open>undefined\<close>, and
  reading its \<^verbatim>\<open>NV\<close> throws a \<^verbatim>\<open>TypeError\<close>.
\<close>

definition update_at :: "'a list \<Rightarrow> int \<Rightarrow> ('a \<Rightarrow> 'a) \<Rightarrow> js_error + 'a list" where
  "update_at xs i f =
     (if 0 \<le> i \<and> i < int (length xs) then Inr (xs[nat i := f (xs ! nat i)])
      else Inl (TypeError ''Cannot read properties of undefined (reading NV)''))"

definition reportElement :: "Word \<Rightarrow> string \<Rightarrow> js_error + Word" where
  "reportElement word element_type =
     (if element_type = ''word'' then Inr (word\<lparr>w_NV := w_NV word + 2\<rparr>)
      else if element_type = ''definition'' then
        (case findIndex (\<lambda>def. case element_id of
                                   Inl e \<Rightarrow> Inl e
                                 | Inr v \<Rightarrow> Inr (Definition_prop def (identifiers element_type) = Some v))
                (w_definitions word) of
           Inl e \<Rightarrow> Inl e
         | Inr i \<Rightarrow>
             (case update_at (w_definitions word) i (\<lambda>d. d\<lparr>d_NV := d_NV d + 2\<rparr>) of
                Inl e \<Rightarrow> Inl e
              | Inr ds \<Rightarrow> Inr (word\<lparr>w_definitions := ds\<rparr>)))
      else
        (case element of
           Inl e \<Rightarrow> Inl e
         | Inr el \<Rightarrow>
             if el_type el = ''example'' then
               (case findIndex (\<lambda>exam. case element_id of
                                           Inl e \<Rightarrow> Inl e
                                         | Inr v \<Rightarrow> Inr (Example_prop exam (identifiers element_type) = Some v))
                       (w_examples word) of
                  Inl e \<Rightarrow> Inl e
                | Inr i \<Rightarrow>
                    (case update_at (w_examples word) i (\<lambda>x. x\<lparr>e_NV := e_NV x + 2\<rparr>) of
                       Inl e \<Rightarrow> Inl e
                     | Inr es \<Rightarrow> Inr (word\<lparr>w_examples := es\<rparr>)))
             else if el_type el = ''mention'' then
               (case findIndex (\<lambda>mention. case element_id of
                                              Inl e \<Rightarrow> Inl e
                                            | Inr v \<Rightarrow> Inr (Mention_prop mention (identifiers element_type) = Some v))
                       (w_mentions word) of
                  Inl e \<Rightarrow> Inl e
                | Inr i \<Rightarrow>
                    (case update_at (w_mentions word) i (\<lambda>x. x\<lparr>m_NV := m_NV x + 2\<rparr>) of
                       Inl e \<Rightarrow> Inl e
                     | Inr ms \<Rightarrow> Inr (word\<lparr>w_mentions := ms\<rparr>)))
             else Inl (Error ''reportElement Error: invalid usage!'')))"

subsection \<open>\<^verbatim>\<open>Report\<close>\<close>

text \<open>
  The first argument is whether \<^verbatim>\<open>auth()\<close> gave a session with a user. The form is
  parsed first, the session is checked before the result of the parse is looked at,
  and the database is opened only after both. An exception of \<^verbatim>\<open>reportElement\<close> or of
  \<^verbatim>\<open>update\<close> reaches the \<^verbatim>\<open>catch\<close> block before anything is written.
\<close>

definition Report :: "bool \<Rightarrow> FormData \<Rightarrow> DB \<Rightarrow> State \<times> DB" where
  "Report session_user formData db =
     (let valFields = reportSchema formData
      in if \<not> session_user
         then (mk_State ''You have to login in order to report items.'' error None, db)
         else
           (case valFields of
              Inl es \<Rightarrow> (validation_failed es, db)
            | Inr (word_text, report_element) \<Rightarrow>
                (let key = slice0 word_text 2;
                     db1 = DB_get db key;
                     sf = shard db1 key;
                     index = (case getIndexOf (\<lambda>word. w_text word = word_text) sf of
                                [] \<Rightarrow> None
                              | i # _ \<Rightarrow> Some i);
                     word = sf_get sf index
                 in if \<not> has_text word
                    then (mk_State (''Cannot find the word '' @
                                      (case word of None \<Rightarrow> ''undefined'' | Some w \<Rightarrow> w_text w))
                            error None, db1)
                    else if report_element \<notin> set [''word'', ''definition'', ''example'', ''mention'']
                    then (mk_State ''Invalid input!'' error None, db1)
                    else
                      (case word of
                         None \<Rightarrow> (something_went_wrong, db1)
                       | Some w \<Rightarrow>
                           (case reportElement w report_element of
                              Inl e \<Rightarrow> (something_went_wrong, db1)
                            | Inr w' \<Rightarrow>
                                (case update index (\<lambda>_. w') sf of
                                   None \<Rightarrow> (something_went_wrong, db1)
                                 | Some sf' \<Rightarrow>
                                     (mk_State ''Done. Thanks for reporting.'' success None,
                                      db1(key \<mapsto> sf'))))))))"

subsection \<open>Scores that never decrease\<close>

text \<open>
  A record after an operation is the record before it, with scores at least as high:
  the identifying fields are the same and neither \<^verbatim>\<open>V\<close> nor \<^verbatim>\<open>NV\<close> went down.
\<close>

definition Definition_grows :: "Definition \<Rightarrow> Definition \<Rightarrow> bool" where
  "Definition_grows d d' =
     (d_text d' = d_text d \<and> d_reference d' = d_reference d \<and> d_V d \<le> d_V d' \<and> d_NV d \<le> d_NV d')"

definition Example_grows :: "Example \<Rightarrow> Example \<Rightarrow> bool" where
  "Example_grows e e' =
     (e_text e' = e_text e \<and> e_reference e' = e_reference e \<and> e_V e \<le> e_V e' \<and> e_NV e \<le> e_NV e')"

definition Mention_grows :: "Mention \<Rightarrow> Mention \<Rightarrow> bool" where
  "Mention_grows m m' =
     (m_title m' = m_title m \<and> m_hyperlink m' = m_hyperlink m \<and> m_V m \<le> m_V m' \<and> m_NV m \<le> m_NV m')"

text \<open>
  Every record of the sequence before is still there afterwards, at its position, and
  has grown; the sequence afterwards may hold more records at its end.
\<close>

fun all_grow :: "('a \<Rightarrow> 'a \<Rightarrow> bool) \<Rightarrow> 'a list \<Rightarrow> 'a list \<Rightarrow> bool" where
  "all_grow R [] ys = True"
| "all_grow R (x # xs) [] = False"
| "all_grow R (x # xs) (y # ys) = (R x y \<and> all_grow R xs ys)"

definition Word_grows :: "Word \<Rightarrow> Word \<Rightarrow> bool" where
  "Word_grows w w' =
     (w_text w' = w_text w \<and> w_V w \<le> w_V w' \<and> w_NV w \<le> w_NV w' \<and>
      all_grow Definition_grows (w_definitions w) (w_definitions w') \<and>
      all_grow Example_grows (w_examples w) (w_examples w') \<and>
      all_grow Mention_grows (w_mentions w) (w_mentions w'))"

subsection \<open>Concrete forms and databases\<close>

definition form_test :: FormData where
  "form_test =
     [''word_text'' \<mapsto> ''test'',
      ''def_content'' \<mapsto> ''a procedure to establish quality'',
      ''def_reference'' \<mapsto> ''Oxford Dictionary'']"

text \<open>The database that holds the word \<^verbatim>\<open>test\<close> and nothing else.\<close>

definition db_test :: DB where
  "db_test = snd (addWord form_test Map.empty)"

text \<open>
  Two report requests for the definition of \<^verbatim>\<open>test\<close> that differ in a further field
  naming the element.
\<close>

definition report_oxford :: FormData where
  "report_oxford =
     [''word_text'' \<mapsto> ''test'',
      ''report_element'' \<mapsto> ''definition'',
      ''element_id'' \<mapsto> ''Oxford Dictionary'']"

definition report_unknown :: FormData where
  "report_unknown =
     [''word_text'' \<mapsto> ''test'',
      ''report_element'' \<mapsto> ''definition'',
      ''element_id'' \<mapsto> ''Nobody wrote this'']"

text \<open>
  A word submitted in mixed case, a further definition for it and a report of it, both
  naming the word as it was submitted.
\<close>

definition form_run :: FormData where
  "form_run =
     [''word_text'' \<mapsto> ''Run'',
      ''def_content'' \<mapsto> ''to move fast on foot'',
      ''def_reference'' \<mapsto> ''Oxford Dictionary'']"

definition db_run :: DB where
  "db_run = snd (addWord form_run Map.empty)"

definition form_run_definition :: FormData where
  "form_run_definition =
     [''word_text'' \<mapsto> ''Run'',
      ''def_content'' \<mapsto> ''to manage or operate something'',
      ''def_reference'' \<mapsto> ''Cambridge Dictionary'']"

definition report_run :: FormData where
  "report_run = [''word_text'' \<mapsto> ''Run'', ''report_element'' \<mapsto> ''word'']"

text \<open>
  The same for a word whose first two characters have no case, so that every casing
  of it has the same shard key.
\<close>

definition form_email :: FormData where
  "form_email =
     [''word_text'' \<mapsto> ''e-Mail'',
      ''def_content'' \<mapsto> ''messages sent by computer'',
      ''def_reference'' \<mapsto> ''Oxford Dictionary'']"

definition db_email :: DB where
  "db_email = snd (addWord form_email Map.empty)"

definition form_email_definition :: FormData where
  "form_email_definition =
     [''word_text'' \<mapsto> ''e-Mail'',
      ''def_content'' \<mapsto> ''a single electronic message'',
      ''def_reference'' \<mapsto> ''Cambridge Dictionary'']"

text \<open>
  A database whose shard \<^verbatim>\<open>te\<close> holds \<^verbatim>\<open>test\<close> and \<^verbatim>\<open>tea\<close>, and two definitions
  submitted for \<^verbatim>\<open>tea\<close>: one from the reference of the definition of \<^verbatim>\<open>test\<close>, one
  from a reference no stored definition has.
\<close>

definition form_tea :: FormData where
  "form_tea =
     [''word_text'' \<mapsto> ''tea'',
      ''def_content'' \<mapsto> ''a hot drink made from leaves'',
      ''def_reference'' \<mapsto> ''Cambridge Dictionary'']"

definition db_tea :: DB where
  "db_tea = snd (addWord form_tea db_test)"

definition form_tea_oxford :: FormData where
  "form_tea_oxford =
     [''word_text'' \<mapsto> ''tea'',
      ''def_content'' \<mapsto> ''a light afternoon meal'',
      ''def_reference'' \<mapsto> ''Oxford Dictionary'']"

definition form_tea_webster :: FormData where
  "form_tea_webster =
     [''word_text'' \<mapsto> ''tea'',
      ''def_content'' \<mapsto> ''a light afternoon meal'',
      ''def_reference'' \<mapsto> ''Merriam-Webster'']"

text \<open>A form for the word \<^verbatim>\<open>tent\<close>, which \<open>db_test\<close> does not hold, with all fields.\<close>

definition form_tent :: FormData where
  "form_tent =
     [''word_text'' \<mapsto> ''tent'',
      ''def_content'' \<mapsto> ''a portable shelter made of cloth'',
      ''def_reference'' \<mapsto> ''Cambridge Dictionary'',
      ''example_text'' \<mapsto> ''We slept in a tent by the lake'',
      ''example_reference'' \<mapsto> ''Field notes'',
      ''mention_title'' \<mapsto> ''Camping basics'',
      ''mention_hyperlink'' \<mapsto> ''https://example.org/tent'']"

section \<open>Properties of the database operations\<close>

lemma shard_DB_get: "shard (DB_get db key) k = shard db k"
  by (simp add: shard_def DB_get_def split: option.splits)

lemma shard_upd: "shard (db(key \<mapsto> ws)) k = (if k = key then ws else shard db k)"
  by (simp add: shard_def)

lemma DB_get_present: "shard db key \<noteq> [] \<Longrightarrow> DB_get db key = db"
  by (simp add: shard_def DB_get_def split: option.splits)

lemma getWhere_None: "getWhere p ws = None \<longleftrightarrow> (\<forall>w \<in> set ws. \<not> p w)"
  by (induction ws) auto

lemma getWhere_Some: "getWhere p ws = Some w \<Longrightarrow> p w \<and> w \<in> set ws"
  by (induction ws) (auto split: if_splits)

lemma getWhere_append_new: "\<forall>w \<in> set ws. \<not> p w \<Longrightarrow> p x \<Longrightarrow> getWhere p (ws @ [x]) = Some x"
  by (induction ws) auto

lemma updateWhere_no_match: "\<forall>w \<in> set ws. \<not> p w \<Longrightarrow> updateWhere p f ws = ws"
  by (induction ws) auto

lemma length_updateWhere: "length (updateWhere p f ws) = length ws"
  by (induction ws) auto

lemma updateWhere_first:
  "i < length ws \<Longrightarrow> p (ws ! i) \<Longrightarrow> \<forall>j < i. \<not> p (ws ! j) \<Longrightarrow> updateWhere p f ws = ws[i := f (ws ! i)]"
proof (induction ws arbitrary: i)
  case Nil
  then show ?case by simp
next
  case (Cons w ws)
  show ?case
  proof (cases i)
    case 0
    with Cons.prems show ?thesis by simp
  next
    case (Suc n)
    with Cons.prems have "\<not> p w" by auto
    moreover have "updateWhere p f ws = ws[n := f (ws ! n)]"
      using Cons.prems Suc by (intro Cons.IH) auto
    ultimately show ?thesis using Suc by simp
  qed
qed

section \<open>Properties of the schemas\<close>

lemma safeParse3_Inr:
  "safeParse3 f1 f2 f3 formData = Inr (a, b, c) \<Longrightarrow>
   formData f1 = Some a \<and> formData f2 = Some b \<and> formData f3 = Some c \<and>
   formSchema f1 (Some a) = [] \<and> formSchema f2 (Some b) = [] \<and> formSchema f3 (Some c) = []"
  by (auto simp add: safeParse3_def flatten_fieldErrors_def split: option.splits if_splits)

lemma safeParse2_Inr:
  "safeParse2 f1 f2 formData = Inr (a, b) \<Longrightarrow>
   formData f1 = Some a \<and> formData f2 = Some b \<and>
   formSchema f1 (Some a) = [] \<and> formSchema f2 (Some b) = []"
  by (auto simp add: safeParse2_def flatten_fieldErrors_def split: option.splits if_splits)

lemma word_text_valid: "formSchema ''word_text'' (Some t) = [] \<Longrightarrow> 2 \<le> length t \<and> length t \<le> 50"
  by (simp add: formSchema_def z_string_def split: if_splits)

lemma length_toLowerCase: "length (toLowerCase t) = length t"
  by (simp add: toLowerCase_def)

lemma reportSchema_cong:
  assumes a: "formData1 ''word_text'' = formData2 ''word_text''"
    and b: "formData1 ''report_element'' = formData2 ''report_element''"
  shows "reportSchema formData1 = reportSchema formData2"
proof -
  have h: "flatten_fieldErrors [''word_text'', ''report_element''] formData1 =
        flatten_fieldErrors [''word_text'', ''report_element''] formData2"
    by (simp add: flatten_fieldErrors_def a b)
  show ?thesis
    unfolding reportSchema_def safeParse2_def a b h ..
qed

lemma addDefinitionSchema_Inr:
  "addDefinitionSchema formData = Inr (word_text, def_content, def_reference) \<Longrightarrow>
   2 \<le> length word_text"
  by (auto simp add: addDefinitionSchema_def dest!: safeParse3_Inr word_text_valid)

section \<open>Properties of the report helper\<close>

lemma getIndexOf_Cons: "getIndexOf p ws = i # is \<Longrightarrow> i < length ws \<and> p (ws ! i)"
proof -
  assume "getIndexOf p ws = i # is"
  then have "i \<in> set (filter (\<lambda>i. p (ws ! i)) [0 ..< length ws])"
    by (simp add: getIndexOf_def)
  then show ?thesis by simp
qed

lemma getIndexOf_Nil: "getIndexOf p ws = [] \<longleftrightarrow> (\<forall>w \<in> set ws. \<not> p w)"
proof
  assume "getIndexOf p ws = []"
  then have "\<forall>i < length ws. \<not> p (ws ! i)"
    by (simp add: getIndexOf_def filter_empty_conv)
  then show "\<forall>w \<in> set ws. \<not> p w"
    by (auto simp add: in_set_conv_nth)
next
  assume "\<forall>w \<in> set ws. \<not> p w"
  then show "getIndexOf p ws = []"
    by (simp add: getIndexOf_def filter_empty_conv)
qed

text \<open>A callback that throws on its first call ends the scan of a non-empty array.\<close>

lemma findIndex_throws: "findIndex (\<lambda>x. Inl e) xs = (if xs = [] then Inr (- 1) else Inl e)"
  by (cases xs) simp_all

text \<open>
  \<^verbatim>\<open>reportElement\<close> returns a word for the element type \<^verbatim>\<open>word\<close> only; every other
  element type ends in an exception.
\<close>

lemma reportElement_Inr:
  "reportElement w t = Inr w' \<Longrightarrow> t = ''word'' \<and> w' = w\<lparr>w_NV := w_NV w + 2\<rparr>"
  by (auto simp add: reportElement_def element_id_def element_def findIndex_throws update_at_def
      split: if_splits)

lemma reportElement_sub_record: "t \<noteq> ''word'' \<Longrightarrow> \<exists>e. reportElement w t = Inl e"
  using reportElement_Inr [of w t] by (cases "reportElement w t") auto

lemma Report_located:
  assumes valid: "reportSchema formData = Inr (word_text, report_element)"
    and located: "\<exists>w \<in> set (shard db (slice0 word_text 2)). w_text w = word_text"
  shows "\<exists>i w. getIndexOf (\<lambda>word. w_text word = word_text) (shard db (slice0 word_text 2)) \<noteq> [] \<and>
           i = hd (getIndexOf (\<lambda>word. w_text word = word_text) (shard db (slice0 word_text 2))) \<and>
           i < length (shard db (slice0 word_text 2)) \<and>
           w = shard db (slice0 word_text 2) ! i \<and> w_text w = word_text \<and> word_text \<noteq> [] \<and>
           DB_get db (slice0 word_text 2) = db"
proof -
  let ?ws = "shard db (slice0 word_text 2)"
  let ?p = "\<lambda>word. w_text word = word_text"
  from located have ne: "getIndexOf ?p ?ws \<noteq> []"
    by (simp add: getIndexOf_Nil)
  then obtain i "is" where c: "getIndexOf ?p ?ws = i # is"
    by (cases "getIndexOf ?p ?ws") auto
  from getIndexOf_Cons [OF c] have i: "i < length ?ws" "w_text (?ws ! i) = word_text"
    by auto
  from valid have "formSchema ''word_text'' (Some word_text) = []"
    by (auto simp add: reportSchema_def dest: safeParse2_Inr)
  then have "word_text \<noteq> []"
    by (auto dest: word_text_valid)
  moreover from located have "?ws \<noteq> []" by auto
  then have "DB_get db (slice0 word_text 2) = db" by (rule DB_get_present)
  ultimately show ?thesis using c i by simp
qed

section \<open>Reports\<close>

text \<open>
  C8. A report by a caller who is not authenticated is rejected with the result that
  asks for a login, whatever the form holds, and the database it returns is the
  database it was given: no score changes and no shard is opened.
\<close>

theorem Report_unauthenticated:
  "Report False formData db =
     (\<lparr>message = \<lparr>msg_text = ''You have to login in order to report items.'', msg_type = error\<rparr>,
       errors = None\<rparr>, db)"
  by (simp add: Report_def mk_State_def)

text \<open>
  C10. The report request carries no element identifier: \<^verbatim>\<open>reportSchema\<close> picks
  \<^verbatim>\<open>word_text\<close> and \<^verbatim>\<open>report_element\<close> only, so two requests that agree on these two
  fields and on whether the caller is authenticated give the same result and the same
  database, whatever other fields they hold.
\<close>

theorem Report_reads_two_fields:
  assumes "formData1 ''word_text'' = formData2 ''word_text''"
    and "formData1 ''report_element'' = formData2 ''report_element''"
  shows "Report session_user formData1 db = Report session_user formData2 db"
  unfolding Report_def reportSchema_cong [OF assms] ..

theorem Report_reads_two_fields_witness:
  "report_oxford ''word_text'' = report_unknown ''word_text'' \<and>
   report_oxford ''report_element'' = report_unknown ''report_element'' \<and>
   report_oxford ''element_id'' \<noteq> report_unknown ''element_id'' \<and>
   Report True report_oxford db_test = Report True report_unknown db_test"
proof -
  have a: "report_oxford ''word_text'' = report_unknown ''word_text''"
    by (simp add: report_oxford_def report_unknown_def)
  have b: "report_oxford ''report_element'' = report_unknown ''report_element''"
    by (simp add: report_oxford_def report_unknown_def)
  have c: "report_oxford ''element_id'' \<noteq> report_unknown ''element_id''"
    by (simp add: report_oxford_def report_unknown_def)
  have d: "Report True report_oxford db_test = Report True report_unknown db_test"
    by (rule Report_reads_two_fields [OF a b])
  show ?thesis
    using a b c d by blast
qed

text \<open>
  C4 (as amended). An authenticated report of a sub-record (element type
  \<^verbatim>\<open>definition\<close>, \<^verbatim>\<open>example\<close> or \<^verbatim>\<open>mention\<close>) of a word that is stored fails, and so
  it does when no sub-record matches; the failure is the result of the \<^verbatim>\<open>catch\<close> block,
  \<^verbatim>\<open>Something went wrong!\<close>, the code having no result of its own for an element that
  is not found; the database returned is the database given, so nothing is mutated.
\<close>

theorem Report_sub_record_fails:
  assumes valid: "reportSchema formData = Inr (word_text, report_element)"
    and sub: "report_element \<in> {''definition'', ''example'', ''mention''}"
    and located: "\<exists>w \<in> set (shard db (slice0 word_text 2)). w_text w = word_text"
  shows "Report True formData db =
     (\<lparr>message = \<lparr>msg_text = ''Something went wrong!'', msg_type = error\<rparr>, errors = None\<rparr>, db)"
proof -
  let ?ws = "shard db (slice0 word_text 2)"
  let ?p = "\<lambda>word. w_text word = word_text"
  from Report_located [OF valid located] obtain i w where
    ne: "getIndexOf ?p ?ws \<noteq> []" and i: "i = hd (getIndexOf ?p ?ws)" "i < length ?ws"
    and w: "w = ?ws ! i" "w_text w = word_text" "word_text \<noteq> []"
    and db: "DB_get db (slice0 word_text 2) = db"
    by blast
  from ne i have idx: "(case getIndexOf ?p ?ws of [] \<Rightarrow> None | i # _ \<Rightarrow> Some i) = Some i"
    by (cases "getIndexOf ?p ?ws") auto
  from sub have "report_element \<noteq> ''word''" by auto
  then obtain e where e: "reportElement w report_element = Inl e"
    using reportElement_sub_record by blast
  from sub have mem: "report_element \<in> set [''word'', ''definition'', ''example'', ''mention'']"
    by auto
  have get: "sf_get ?ws (Some i) = Some w"
    using i w by (simp add: sf_get_def)
  show ?thesis
    using w(2,3) e mem
    by (simp add: Report_def valid db idx get has_text_def something_went_wrong_def mk_State_def
        del: set_simps)
qed

text \<open>
  The amended C4 at the report of a definition of \<^verbatim>\<open>test\<close>, a word that \<open>db_test\<close>
  holds, by a request naming an element that no definition of the word has.
\<close>

theorem Report_sub_record_fails_witness:
  "reportSchema report_unknown = Inr (''test'', ''definition'') \<and>
   ''definition'' \<in> {''definition'', ''example'', ''mention''} \<and>
   (\<exists>w \<in> set (shard db_test (slice0 ''test'' 2)). w_text w = ''test'') \<and>
   Report True report_unknown db_test =
     (\<lparr>message = \<lparr>msg_text = ''Something went wrong!'', msg_type = error\<rparr>, errors = None\<rparr>, db_test)"
proof -
  have valid: "reportSchema report_unknown = Inr (''test'', ''definition'')"
    by code_simp
  have sub: "''definition'' \<in> {''definition'', ''example'', ''mention''}"
    by simp
  have located: "\<exists>w \<in> set (shard db_test (slice0 ''test'' 2)). w_text w = ''test''"
    by code_simp
  show ?thesis
    using valid sub located Report_sub_record_fails [OF valid sub located] by blast
qed

text \<open>
  C4 as the claim states it fails: the word \<^verbatim>\<open>test\<close> has one definition, from the
  reference \<^verbatim>\<open>Oxford Dictionary\<close>; a report of a definition by a request that names
  another element gets the result of the \<^verbatim>\<open>catch\<close> block, the very result that the
  request naming the existing element gets, and no result that tells that the element
  was not found.
\<close>

theorem Report_not_found_counterexample:
  "map_option (\<lambda>w. map d_reference (w_definitions w)) (lookup ''test'' db_test) =
     Some [''Oxford Dictionary''] \<and>
   report_unknown ''element_id'' = Some ''Nobody wrote this'' \<and>
   fst (Report True report_unknown db_test) =
     \<lparr>message = \<lparr>msg_text = ''Something went wrong!'', msg_type = error\<rparr>, errors = None\<rparr> \<and>
   fst (Report True report_unknown db_test) = something_went_wrong \<and>
   fst (Report True report_unknown db_test) = fst (Report True report_oxford db_test)"
proof -
  have a: "map_option (\<lambda>w. map d_reference (w_definitions w)) (lookup ''test'' db_test) =
     Some [''Oxford Dictionary'']"
    by code_simp
  have b: "report_unknown ''element_id'' = Some ''Nobody wrote this''"
    by (simp add: report_unknown_def)
  have c: "fst (Report True report_unknown db_test) =
     \<lparr>message = \<lparr>msg_text = ''Something went wrong!'', msg_type = error\<rparr>, errors = None\<rparr>"
    by code_simp
  have d: "fst (Report True report_unknown db_test) = something_went_wrong"
    by code_simp
  have e: "fst (Report True report_unknown db_test) = fst (Report True report_oxford db_test)"
    by code_simp
  show ?thesis
    using a b c d e by blast
qed

text \<open>
  C1. The code does not do what the claim says. On the database that holds \<^verbatim>\<open>test\<close> with
  its one definition from \<^verbatim>\<open>Oxford Dictionary\<close>, an authenticated report of a
  definition of \<^verbatim>\<open>test\<close> makes \<^verbatim>\<open>reportElement\<close> throw a \<^verbatim>\<open>ReferenceError\<close> at the
  undeclared \<^verbatim>\<open>element_id\<close>; the caller gets \<^verbatim>\<open>Something went wrong!\<close> and the \<^verbatim>\<open>NV\<close> of
  the definition is still 0, not 2.
\<close>

theorem Report_definition_not_penalised:
  "map_option (\<lambda>w. map d_reference (w_definitions w)) (lookup ''test'' db_test) =
     Some [''Oxford Dictionary''] \<and>
   map_option (\<lambda>w. reportElement w ''definition'') (lookup ''test'' db_test) =
     Some (Inl (ReferenceError ''element_id is not defined'')) \<and>
   fst (Report True report_oxford db_test) =
     \<lparr>message = \<lparr>msg_text = ''Something went wrong!'', msg_type = error\<rparr>, errors = None\<rparr> \<and>
   map_option (\<lambda>w. map d_NV (w_definitions w))
       (lookup ''test'' (snd (Report True report_oxford db_test))) = Some [0]"
proof -
  have a: "map_option (\<lambda>w. map d_reference (w_definitions w)) (lookup ''test'' db_test) =
     Some [''Oxford Dictionary'']"
    by code_simp
  have b: "map_option (\<lambda>w. reportElement w ''definition'') (lookup ''test'' db_test) =
     Some (Inl (ReferenceError ''element_id is not defined''))"
    by code_simp
  have c: "fst (Report True report_oxford db_test) =
     \<lparr>message = \<lparr>msg_text = ''Something went wrong!'', msg_type = error\<rparr>, errors = None\<rparr>"
    by code_simp
  have d: "map_option (\<lambda>w. map d_NV (w_definitions w))
       (lookup ''test'' (snd (Report True report_oxford db_test))) = Some [0]"
    by code_simp
  show ?thesis
    using a b c d by blast
qed

section \<open>Adding a word\<close>

lemma w_text_newWord: "w_text (newWord a b c) = toLowerCase a"
  by (simp add: newWord_def)

text \<open>What \<^verbatim>\<open>addWord\<close> does with a valid form whose lowercased text is not in its shard.\<close>

lemma addWord_new:
  assumes valid: "addDefinitionSchema formData = Inr (word_text, def_content, def_reference)"
    and new: "\<forall>w \<in> set (shard db (slice0 (toLowerCase word_text) 2)). w_text w \<noteq> toLowerCase word_text"
  shows "addWord formData db =
     (mk_State (toLowerCase word_text @ '' has been successfully added.'') success None,
      (DB_get db (slice0 (toLowerCase word_text) 2))
        (slice0 (toLowerCase word_text) 2 \<mapsto>
           shard db (slice0 (toLowerCase word_text) 2) @ [newWord word_text def_content def_reference]))"
proof -
  have "getWhere (\<lambda>word. w_text word = toLowerCase word_text)
          (shard db (slice0 (toLowerCase word_text) 2)) = None"
    using new by (simp add: getWhere_None)
  then show ?thesis
    by (simp add: addWord_def valid Let_def w_text_newWord shard_DB_get has_text_def add_def)
qed

text \<open>
  C2 (as amended). For a valid form whose lowercased text is not yet stored in its
  shard, \<^verbatim>\<open>addWord\<close> succeeds, and a lookup of the same text, in any casing, returns the
  new word: \<^verbatim>\<open>V = 1\<close>, \<^verbatim>\<open>NV = 0\<close>, exactly one definition built from the submitted content
  and reference, and an example collection and a mention collection that each hold
  one placeholder record of empty strings with \<^verbatim>\<open>V = 1\<close> and \<^verbatim>\<open>NV = 0\<close>.
\<close>

theorem addWord_then_lookup:
  assumes valid: "addDefinitionSchema formData = Inr (word_text, def_content, def_reference)"
    and new: "\<forall>w \<in> set (shard db (slice0 (toLowerCase word_text) 2)). w_text w \<noteq> toLowerCase word_text"
    and same: "toLowerCase t = toLowerCase word_text"
  shows "msg_type (message (fst (addWord formData db))) = success \<and>
     lookup t (snd (addWord formData db)) =
       Some \<lparr>w_text = toLowerCase word_text,
             w_definitions = [\<lparr>d_text = def_content, d_reference = def_reference, d_V = 1, d_NV = 0\<rparr>],
             w_examples = [\<lparr>e_text = [], e_reference = [], e_V = 1, e_NV = 0\<rparr>],
             w_mentions = [\<lparr>m_title = [], m_hyperlink = [], m_V = 1, m_NV = 0\<rparr>],
             w_V = 1,
             w_NV = 0\<rparr>"
proof -
  let ?key = "slice0 (toLowerCase word_text) 2"
  let ?nw = "newWord word_text def_content def_reference"
  have "getWhere (\<lambda>word. w_text word = toLowerCase word_text) (shard db ?key @ [?nw]) = Some ?nw"
    using new by (intro getWhere_append_new) (simp_all add: w_text_newWord)
  then have "lookup t (snd (addWord formData db)) = Some ?nw"
    by (simp add: addWord_new [OF valid new] lookup_def same shard_upd)
  moreover have "msg_type (message (fst (addWord formData db))) = success"
    by (simp add: addWord_new [OF valid new] mk_State_def)
  ultimately show ?thesis
    by (simp add: newWord_def)
qed

text \<open>
  The amended C2 at the word \<^verbatim>\<open>test\<close> added to the empty database and looked up as
  \<^verbatim>\<open>TEST\<close>.
\<close>

theorem addWord_then_lookup_witness:
  "addDefinitionSchema form_test =
     Inr (''test'', ''a procedure to establish quality'', ''Oxford Dictionary'') \<and>
   shard Map.empty (slice0 (toLowerCase ''test'') 2) = [] \<and>
   toLowerCase ''TEST'' = toLowerCase ''test'' \<and>
   msg_type (message (fst (addWord form_test Map.empty))) = success \<and>
   lookup ''TEST'' (snd (addWord form_test Map.empty)) =
     Some \<lparr>w_text = toLowerCase ''test'',
           w_definitions = [\<lparr>d_text = ''a procedure to establish quality'',
                             d_reference = ''Oxford Dictionary'', d_V = 1, d_NV = 0\<rparr>],
           w_examples = [\<lparr>e_text = [], e_reference = [], e_V = 1, e_NV = 0\<rparr>],
           w_mentions = [\<lparr>m_title = [], m_hyperlink = [], m_V = 1, m_NV = 0\<rparr>],
           w_V = 1,
           w_NV = 0\<rparr>"
proof -
  have valid: "addDefinitionSchema form_test =
     Inr (''test'', ''a procedure to establish quality'', ''Oxford Dictionary'')"
    by code_simp
  have empty: "shard Map.empty (slice0 (toLowerCase ''test'') 2) = []"
    by (simp add: shard_def)
  then have new: "\<forall>w \<in> set (shard Map.empty (slice0 (toLowerCase ''test'') 2)). w_text w \<noteq> toLowerCase ''test''"
    by simp
  have same: "toLowerCase ''TEST'' = toLowerCase ''test''"
    by code_simp
  show ?thesis
    using valid empty same addWord_then_lookup [OF valid new same] by blast
qed

text \<open>
  C2 as the claim states it fails: the word that a lookup returns right after
  \<^verbatim>\<open>addWord\<close> has an example collection and a mention collection that are not empty;
  each holds the placeholder record that \<^verbatim>\<open>addWord\<close> puts there.
\<close>

theorem addWord_collections_counterexample:
  "map_option w_examples (lookup ''test'' (snd (addWord form_test Map.empty))) =
     Some [\<lparr>e_text = [], e_reference = [], e_V = 1, e_NV = 0\<rparr>] \<and>
   map_option w_mentions (lookup ''test'' (snd (addWord form_test Map.empty))) =
     Some [\<lparr>m_title = [], m_hyperlink = [], m_V = 1, m_NV = 0\<rparr>] \<and>
   map_option w_examples (lookup ''test'' (snd (addWord form_test Map.empty))) \<noteq> Some [] \<and>
   map_option w_mentions (lookup ''test'' (snd (addWord form_test Map.empty))) \<noteq> Some []"
proof -
  have a: "map_option w_examples (lookup ''test'' (snd (addWord form_test Map.empty))) =
     Some [\<lparr>e_text = [], e_reference = [], e_V = 1, e_NV = 0\<rparr>]"
    by code_simp
  have b: "map_option w_mentions (lookup ''test'' (snd (addWord form_test Map.empty))) =
     Some [\<lparr>m_title = [], m_hyperlink = [], m_V = 1, m_NV = 0\<rparr>]"
    by code_simp
  show ?thesis
    by (simp add: a b)
qed

text \<open>
  C5. When no word of the database has the lowercased text, two calls of \<^verbatim>\<open>addWord\<close> in
  sequence with that text (and valid definition fields, the same or not) give a
  success and then the warning that the word already exists; afterwards the shard of
  the text holds exactly one word with it and no other shard holds any.
\<close>

theorem addWord_twice:
  assumes valid1: "addDefinitionSchema formData1 = Inr (word_text, content1, reference1)"
    and valid2: "addDefinitionSchema formData2 = Inr (word_text, content2, reference2)"
    and new: "\<forall>k. \<forall>w \<in> set (shard db k). w_text w \<noteq> toLowerCase word_text"
  shows "msg_type (message (fst (addWord formData1 db))) = success \<and>
     message (fst (addWord formData2 (snd (addWord formData1 db)))) =
       \<lparr>msg_text = toLowerCase word_text @ '' already exists.'', msg_type = warning\<rparr> \<and>
     (\<forall>k. length (filter (\<lambda>w. w_text w = toLowerCase word_text)
                    (shard (snd (addWord formData2 (snd (addWord formData1 db)))) k)) =
           (if k = slice0 (toLowerCase word_text) 2 then 1 else 0))"
proof -
  let ?t = "toLowerCase word_text"
  let ?key = "slice0 ?t 2"
  let ?nw = "newWord word_text content1 reference1"
  let ?db1 = "(DB_get db ?key)(?key \<mapsto> shard db ?key @ [?nw])"
  from new have new1: "\<forall>w \<in> set (shard db ?key). w_text w \<noteq> ?t"
    by simp
  have first: "addWord formData1 db = (mk_State (?t @ '' has been successfully added.'') success None, ?db1)"
    by (rule addWord_new [OF valid1 new1])
  have t: "?t \<noteq> []"
    using addDefinitionSchema_Inr [OF valid1] by (auto simp add: toLowerCase_def)
  have found: "getWhere (\<lambda>word. w_text word = ?t) (shard db ?key @ [?nw]) = Some ?nw"
    using new1 by (intro getWhere_append_new) (simp_all add: w_text_newWord)
  have present: "DB_get ?db1 ?key = ?db1"
    by (rule DB_get_present) (simp add: shard_upd)
  have second: "addWord formData2 ?db1 =
      (mk_State (?t @ '' already exists.'') warning (Some [(''word_text'', [custom ''word already exists''])]),
       ?db1)"
    using t
    by (simp add: addWord_def valid2 Let_def w_text_newWord present shard_upd found has_text_def)
  have count: "length (filter (\<lambda>w. w_text w = ?t) (shard ?db1 k)) = (if k = ?key then 1 else 0)" for k
  proof (cases "k = ?key")
    case True
    have "filter (\<lambda>w. w_text w = ?t) (shard db ?key) = []"
      using new1 by (simp add: filter_empty_conv)
    with True show ?thesis
      by (simp add: shard_upd w_text_newWord)
  next
    case False
    have "filter (\<lambda>w. w_text w = ?t) (shard db k) = []"
      using new by (simp add: filter_empty_conv)
    with False show ?thesis
      by (simp add: shard_upd shard_DB_get)
  qed
  show ?thesis
    by (simp add: first second count mk_State_def)
qed

text \<open>C5 at the word \<^verbatim>\<open>test\<close>, submitted twice to the empty database.\<close>

theorem addWord_twice_witness:
  "addDefinitionSchema form_test =
     Inr (''test'', ''a procedure to establish quality'', ''Oxford Dictionary'') \<and>
   (\<forall>k. shard Map.empty k = []) \<and>
   msg_type (message (fst (addWord form_test Map.empty))) = success \<and>
   message (fst (addWord form_test (snd (addWord form_test Map.empty)))) =
     \<lparr>msg_text = toLowerCase ''test'' @ '' already exists.'', msg_type = warning\<rparr> \<and>
   (\<forall>k. length (filter (\<lambda>w. w_text w = toLowerCase ''test'')
                  (shard (snd (addWord form_test (snd (addWord form_test Map.empty)))) k)) =
         (if k = slice0 (toLowerCase ''test'') 2 then 1 else 0))"
proof -
  have valid: "addDefinitionSchema form_test =
     Inr (''test'', ''a procedure to establish quality'', ''Oxford Dictionary'')"
    by code_simp
  have empty: "\<forall>k. shard Map.empty k = []"
    by (simp add: shard_def)
  then have new: "\<forall>k. \<forall>w \<in> set (shard Map.empty k). w_text w \<noteq> toLowerCase ''test''"
    by simp
  show ?thesis
    using valid empty addWord_twice [OF valid valid new] by blast
qed

text \<open>
  C3. The code does not do what the claim says. \<^verbatim>\<open>addWord\<close> stores \<^verbatim>\<open>Run\<close> as \<^verbatim>\<open>run\<close> in
  the shard \<^verbatim>\<open>ru\<close>, and a lookup in any casing finds it. \<^verbatim>\<open>addDefinition\<close> and
  \<^verbatim>\<open>Report\<close> take the text as submitted: for \<^verbatim>\<open>Run\<close> they open the shard \<^verbatim>\<open>Ru\<close> and
  compare the stored \<^verbatim>\<open>run\<close> with \<^verbatim>\<open>Run\<close>. The definition is reported as added and is
  not stored, and the report cannot find the word. For \<^verbatim>\<open>e-Mail\<close> the shard is the
  same in every casing and the comparison alone misses the stored \<^verbatim>\<open>e-mail\<close>.
\<close>

theorem addDefinition_mixed_case_lost:
  "msg_type (message (fst (addWord form_run Map.empty))) = success \<and>
   map_option w_text (lookup ''Run'' db_run) = Some ''run'' \<and>
   msg_type (message (fst (addDefinition form_run_definition db_run))) = success \<and>
   map_option (\<lambda>w. map d_reference (w_definitions w))
       (lookup ''Run'' (snd (addDefinition form_run_definition db_run))) =
     Some [''Oxford Dictionary''] \<and>
   msg_type (message (fst (Report True report_run db_run))) = error \<and>
   map_option w_NV (lookup ''Run'' (snd (Report True report_run db_run))) = Some 0 \<and>
   map_option w_text (lookup ''e-Mail'' db_email) = Some ''e-mail'' \<and>
   slice0 ''e-Mail'' 2 = slice0 ''e-mail'' 2 \<and>
   msg_type (message (fst (addDefinition form_email_definition db_email))) = success \<and>
   map_option (\<lambda>w. map d_reference (w_definitions w))
       (lookup ''e-Mail'' (snd (addDefinition form_email_definition db_email))) =
     Some [''Oxford Dictionary'']"
proof -
  have a: "msg_type (message (fst (addWord form_run Map.empty))) = success"
    by code_simp
  have b: "map_option w_text (lookup ''Run'' db_run) = Some ''run''"
    by code_simp
  have c: "msg_type (message (fst (addDefinition form_run_definition db_run))) = success"
    by code_simp
  have d: "map_option (\<lambda>w. map d_reference (w_definitions w))
       (lookup ''Run'' (snd (addDefinition form_run_definition db_run))) =
     Some [''Oxford Dictionary'']"
    by code_simp
  have e: "msg_type (message (fst (Report True report_run db_run))) = error"
    by code_simp
  have f: "map_option w_NV (lookup ''Run'' (snd (Report True report_run db_run))) = Some 0"
    by code_simp
  have g: "map_option w_text (lookup ''e-Mail'' db_email) = Some ''e-mail''"
    by code_simp
  have h: "slice0 ''e-Mail'' 2 = slice0 ''e-mail'' 2"
    by code_simp
  have i: "msg_type (message (fst (addDefinition form_email_definition db_email))) = success"
    by code_simp
  have j: "map_option (\<lambda>w. map d_reference (w_definitions w))
       (lookup ''e-Mail'' (snd (addDefinition form_email_definition db_email))) =
     Some [''Oxford Dictionary'']"
    by code_simp
  show ?thesis
    using a b c d e f g h i j by blast
qed

section \<open>Adding a definition, an example or a mention\<close>

lemma find_Some_ex: "(\<exists>y. find P xs = Some y) = (\<exists>x \<in> set xs. P x)"
  using find_None_iff [of P xs] by auto

text \<open>
  On a shard whose words all have a text, the test of \<^verbatim>\<open>exists.text\<close> after \<^verbatim>\<open>getWhere\<close>
  tells whether some word satisfies the predicate.
\<close>

lemma has_text_getWhere:
  assumes "\<forall>w \<in> set ws. w_text w \<noteq> []"
  shows "has_text (getWhere p ws) = (\<exists>w \<in> set ws. p w)"
proof (cases "getWhere p ws")
  case None
  then have "\<forall>w \<in> set ws. \<not> p w"
    by (simp add: getWhere_None)
  with None show ?thesis
    by (simp add: has_text_def)
next
  case (Some w)
  from getWhere_Some [OF Some] assms show ?thesis
    by (auto simp add: has_text_def Some)
qed

lemma addDefinition_valid:
  assumes valid: "addDefinitionSchema formData = Inr (word_text, def_content, def_reference)"
    and texts: "\<forall>w \<in> set (shard db (slice0 word_text 2)). w_text w \<noteq> []"
  shows "addDefinition formData db =
     (if \<exists>w \<in> set (shard db (slice0 word_text 2)). \<exists>d \<in> set (w_definitions w). d_reference d = def_reference
      then (mk_State ''Failed: there is already a definition from the same reference included!'' error None,
            DB_get db (slice0 word_text 2))
      else (mk_State ''Your definition has been added successfully. Refresh the page and check it out.''
              success None,
            (DB_get db (slice0 word_text 2))
              (slice0 word_text 2 \<mapsto>
                 updateWhere (\<lambda>word. w_text word = word_text)
                   (\<lambda>prev. prev\<lparr>w_definitions := w_definitions prev @
                      [\<lparr>d_text = def_content, d_reference = def_reference, d_V = 1, d_NV = 0\<rparr>]\<rparr>)
                   (shard db (slice0 word_text 2)))))"
  by (simp add: addDefinition_def valid Let_def shard_DB_get find_Some_ex
      has_text_getWhere [OF texts])

lemma addDefinition_no_duplicate:
  assumes valid: "addDefinitionSchema formData = Inr (word_text, def_content, def_reference)"
    and fresh: "\<forall>w \<in> set (shard db (slice0 word_text 2)). \<forall>d \<in> set (w_definitions w). d_reference d \<noteq> def_reference"
  shows "addDefinition formData db =
     (mk_State ''Your definition has been added successfully. Refresh the page and check it out.''
        success None,
      (DB_get db (slice0 word_text 2))
        (slice0 word_text 2 \<mapsto>
           updateWhere (\<lambda>word. w_text word = word_text)
             (\<lambda>prev. prev\<lparr>w_definitions := w_definitions prev @
                [\<lparr>d_text = def_content, d_reference = def_reference, d_V = 1, d_NV = 0\<rparr>]\<rparr>)
             (shard db (slice0 word_text 2))))"
proof -
  have "getWhere (\<lambda>word. \<exists>d \<in> set (w_definitions word). d_reference d = def_reference)
          (shard db (slice0 word_text 2)) = None"
    using fresh by (simp add: getWhere_None)
  then show ?thesis
    by (simp add: addDefinition_def valid Let_def shard_DB_get find_Some_ex has_text_def)
qed

lemma addExample_valid:
  "addExampleSchema formData = Inr (word_text, example_text, example_reference) \<Longrightarrow>
   addExample formData db =
     (mk_State ''The example has been added successfully. Refresh the page and check it out.'' success None,
      (DB_get db (slice0 word_text 2))
        (slice0 word_text 2 \<mapsto>
           updateWhere (\<lambda>word. w_text word = word_text)
             (\<lambda>prev. prev\<lparr>w_examples := w_examples prev @
                [\<lparr>e_text = example_text, e_reference = example_reference, e_V = 1, e_NV = 0\<rparr>]\<rparr>)
             (shard db (slice0 word_text 2))))"
  by (simp add: addExample_def Let_def shard_DB_get)

lemma addMention_valid:
  "addMentionSchema formData = Inr (word_text, mention_title, mention_hyperlink) \<Longrightarrow>
   addMention formData db =
     (mk_State ''The data has been added successfully. Refresh the page and check it out.'' success None,
      (DB_get db (slice0 word_text 2))
        (slice0 word_text 2 \<mapsto>
           updateWhere (\<lambda>word. w_text word = word_text)
             (\<lambda>prev. prev\<lparr>w_mentions := w_mentions prev @
                [\<lparr>m_title = mention_title, m_hyperlink = mention_hyperlink, m_V = 1, m_NV = 0\<rparr>]\<rparr>)
             (shard db (slice0 word_text 2))))"
  by (simp add: addMention_def Let_def shard_DB_get)

lemma shard_put_back: "shard ((DB_get db key)(key \<mapsto> shard db key)) k = shard db k"
  by (simp add: shard_upd shard_DB_get)

text \<open>
  C6. For a valid form, on a shard whose words all have a text: when any word of the
  shard of the submitted text, the target word or another, has a definition with the
  submitted reference, \<^verbatim>\<open>addDefinition\<close> fails with the error for a duplicate reference
  and no shard changes; otherwise it succeeds, and the first word of the shard with
  the submitted text, when there is one, gets the new definition at the end of its
  definitions, nothing else changing.
\<close>

theorem addDefinition_duplicate_reference:
  assumes valid: "addDefinitionSchema formData = Inr (word_text, def_content, def_reference)"
    and texts: "\<forall>w \<in> set (shard db (slice0 word_text 2)). w_text w \<noteq> []"
  shows "if \<exists>w \<in> set (shard db (slice0 word_text 2)). \<exists>d \<in> set (w_definitions w). d_reference d = def_reference
     then message (fst (addDefinition formData db)) =
            \<lparr>msg_text = ''Failed: there is already a definition from the same reference included!'',
             msg_type = error\<rparr> \<and>
          (\<forall>k. shard (snd (addDefinition formData db)) k = shard db k)
     else msg_type (message (fst (addDefinition formData db))) = success \<and>
          (\<forall>k. k \<noteq> slice0 word_text 2 \<longrightarrow> shard (snd (addDefinition formData db)) k = shard db k) \<and>
          (\<forall>i. i < length (shard db (slice0 word_text 2)) \<and>
                w_text (shard db (slice0 word_text 2) ! i) = word_text \<and>
                (\<forall>j < i. w_text (shard db (slice0 word_text 2) ! j) \<noteq> word_text) \<longrightarrow>
                shard (snd (addDefinition formData db)) (slice0 word_text 2) =
                  (shard db (slice0 word_text 2))
                    [i := (shard db (slice0 word_text 2) ! i)
                       \<lparr>w_definitions := w_definitions (shard db (slice0 word_text 2) ! i) @
                          [\<lparr>d_text = def_content, d_reference = def_reference, d_V = 1, d_NV = 0\<rparr>]\<rparr>])"
proof (cases "\<exists>w \<in> set (shard db (slice0 word_text 2)). \<exists>d \<in> set (w_definitions w). d_reference d = def_reference")
  case True
  then show ?thesis
    by (simp add: addDefinition_valid [OF valid texts] mk_State_def shard_DB_get)
next
  case False
  let ?ws = "shard db (slice0 word_text 2)"
  let ?f = "\<lambda>prev. prev\<lparr>w_definitions := w_definitions prev @
              [\<lparr>d_text = def_content, d_reference = def_reference, d_V = 1, d_NV = 0\<rparr>]\<rparr>"
  have upd: "updateWhere (\<lambda>word. w_text word = word_text) ?f ?ws = ?ws[i := ?f (?ws ! i)]"
    if "i < length ?ws" "w_text (?ws ! i) = word_text" "\<forall>j < i. w_text (?ws ! j) \<noteq> word_text" for i
    using that by (intro updateWhere_first) simp_all
  from False show ?thesis
    by (simp add: addDefinition_valid [OF valid texts] mk_State_def shard_upd shard_DB_get upd)
qed

text \<open>
  C6 on the shard that holds \<^verbatim>\<open>test\<close> (defined from \<^verbatim>\<open>Oxford Dictionary\<close>) and \<^verbatim>\<open>tea\<close>
  (defined from \<^verbatim>\<open>Cambridge Dictionary\<close>): a definition of \<^verbatim>\<open>tea\<close> from
  \<^verbatim>\<open>Oxford Dictionary\<close> is refused because of the definition of \<^verbatim>\<open>test\<close>; one from
  \<^verbatim>\<open>Merriam-Webster\<close> is appended to \<^verbatim>\<open>tea\<close>, the word at position 1.
\<close>

theorem addDefinition_duplicate_reference_witness:
  "addDefinitionSchema form_tea_oxford = Inr (''tea'', ''a light afternoon meal'', ''Oxford Dictionary'') \<and>
   addDefinitionSchema form_tea_webster = Inr (''tea'', ''a light afternoon meal'', ''Merriam-Webster'') \<and>
   map w_text (shard db_tea (slice0 ''tea'' 2)) = [''test'', ''tea''] \<and>
   map (\<lambda>w. map d_reference (w_definitions w)) (shard db_tea (slice0 ''tea'' 2)) =
     [[''Oxford Dictionary''], [''Cambridge Dictionary'']] \<and>
   message (fst (addDefinition form_tea_oxford db_tea)) =
     \<lparr>msg_text = ''Failed: there is already a definition from the same reference included!'',
      msg_type = error\<rparr> \<and>
   (\<forall>k. shard (snd (addDefinition form_tea_oxford db_tea)) k = shard db_tea k) \<and>
   msg_type (message (fst (addDefinition form_tea_webster db_tea))) = success \<and>
   shard (snd (addDefinition form_tea_webster db_tea)) (slice0 ''tea'' 2) =
     (shard db_tea (slice0 ''tea'' 2))
       [1 := (shard db_tea (slice0 ''tea'' 2) ! 1)
          \<lparr>w_definitions := w_definitions (shard db_tea (slice0 ''tea'' 2) ! 1) @
             [\<lparr>d_text = ''a light afternoon meal'', d_reference = ''Merriam-Webster'',
               d_V = 1, d_NV = 0\<rparr>]\<rparr>]"
proof -
  let ?ws = "shard db_tea (slice0 ''tea'' 2)"
  have oxford: "addDefinitionSchema form_tea_oxford =
      Inr (''tea'', ''a light afternoon meal'', ''Oxford Dictionary'')"
    by code_simp
  have webster: "addDefinitionSchema form_tea_webster =
      Inr (''tea'', ''a light afternoon meal'', ''Merriam-Webster'')"
    by code_simp
  have names: "map w_text ?ws = [''test'', ''tea'']"
    by code_simp
  have refs: "map (\<lambda>w. map d_reference (w_definitions w)) ?ws =
      [[''Oxford Dictionary''], [''Cambridge Dictionary'']]"
    by code_simp
  have texts: "\<forall>w \<in> set ?ws. w_text w \<noteq> []"
    by code_simp
  have dup: "\<exists>w \<in> set ?ws. \<exists>d \<in> set (w_definitions w). d_reference d = ''Oxford Dictionary''"
    by code_simp
  have fresh: "\<not> (\<exists>w \<in> set ?ws. \<exists>d \<in> set (w_definitions w). d_reference d = ''Merriam-Webster'')"
    by code_simp
  have len: "1 < length ?ws"
    by code_simp
  have at1: "w_text (?ws ! 1) = ''tea''"
    by code_simp
  have at0: "w_text (?ws ! 0) \<noteq> ''tea''"
    by code_simp
  then have before: "\<forall>j < 1. w_text (?ws ! j) \<noteq> ''tea''"
    by simp
  have refused: "message (fst (addDefinition form_tea_oxford db_tea)) =
       \<lparr>msg_text = ''Failed: there is already a definition from the same reference included!'',
        msg_type = error\<rparr> \<and>
     (\<forall>k. shard (snd (addDefinition form_tea_oxford db_tea)) k = shard db_tea k)"
    using addDefinition_duplicate_reference [OF oxford texts] unfolding if_P [OF dup] .
  have added: "msg_type (message (fst (addDefinition form_tea_webster db_tea))) = success \<and>
     shard (snd (addDefinition form_tea_webster db_tea)) (slice0 ''tea'' 2) =
       ?ws[1 := (?ws ! 1)\<lparr>w_definitions := w_definitions (?ws ! 1) @
                 [\<lparr>d_text = ''a light afternoon meal'', d_reference = ''Merriam-Webster'',
                   d_V = 1, d_NV = 0\<rparr>]\<rparr>]"
    using addDefinition_duplicate_reference [OF webster texts] len at1 before
    unfolding if_not_P [OF fresh] by blast
  show ?thesis
    using oxford webster names refs refused added by blast
qed

text \<open>
  C7. \<^verbatim>\<open>updateWhere\<close> with a predicate that no word of the shard satisfies returns the
  shard as it is. So when the shard of the submitted text holds no word with that
  text, \<^verbatim>\<open>addExample\<close> and \<^verbatim>\<open>addMention\<close> with a valid form, and \<^verbatim>\<open>addDefinition\<close> with
  a valid form whose reference no definition of the shard has, return a result of
  type \<^verbatim>\<open>success\<close> and leave the words of every shard as they were.
\<close>

theorem updateWhere_no_match_is_silent:
  assumes absent: "\<forall>w \<in> set (shard db (slice0 word_text 2)). w_text w \<noteq> word_text"
  shows "updateWhere (\<lambda>word. w_text word = word_text) f (shard db (slice0 word_text 2)) =
       shard db (slice0 word_text 2) \<and>
     (addExampleSchema formData = Inr (word_text, example_text, example_reference) \<longrightarrow>
        msg_type (message (fst (addExample formData db))) = success \<and>
        (\<forall>k. shard (snd (addExample formData db)) k = shard db k)) \<and>
     (addMentionSchema formData = Inr (word_text, mention_title, mention_hyperlink) \<longrightarrow>
        msg_type (message (fst (addMention formData db))) = success \<and>
        (\<forall>k. shard (snd (addMention formData db)) k = shard db k)) \<and>
     (addDefinitionSchema formData = Inr (word_text, def_content, def_reference) \<and>
      (\<forall>w \<in> set (shard db (slice0 word_text 2)). \<forall>d \<in> set (w_definitions w). d_reference d \<noteq> def_reference) \<longrightarrow>
        msg_type (message (fst (addDefinition formData db))) = success \<and>
        (\<forall>k. shard (snd (addDefinition formData db)) k = shard db k))"
proof -
  have noop: "updateWhere (\<lambda>word. w_text word = word_text) g (shard db (slice0 word_text 2)) =
      shard db (slice0 word_text 2)" for g
    using absent by (intro updateWhere_no_match) simp
  show ?thesis
    by (simp add: noop addExample_valid addMention_valid addDefinition_no_duplicate
        shard_put_back mk_State_def)
qed

text \<open>
  C7 at the word \<^verbatim>\<open>tent\<close>, which the shard \<^verbatim>\<open>te\<close> of \<open>db_test\<close> does not hold: the
  example, the mention and the definition submitted for it are answered with a success
  and stored nowhere.
\<close>

theorem updateWhere_no_match_is_silent_witness:
  "map w_text (shard db_test (slice0 ''tent'' 2)) = [''test''] \<and>
   addExampleSchema form_tent = Inr (''tent'', ''We slept in a tent by the lake'', ''Field notes'') \<and>
   addMentionSchema form_tent = Inr (''tent'', ''Camping basics'', ''https://example.org/tent'') \<and>
   addDefinitionSchema form_tent =
     Inr (''tent'', ''a portable shelter made of cloth'', ''Cambridge Dictionary'') \<and>
   map (\<lambda>w. map d_reference (w_definitions w)) (shard db_test (slice0 ''tent'' 2)) =
     [[''Oxford Dictionary'']] \<and>
   updateWhere (\<lambda>word. w_text word = ''tent'') (\<lambda>prev. prev\<lparr>w_examples := []\<rparr>)
       (shard db_test (slice0 ''tent'' 2)) = shard db_test (slice0 ''tent'' 2) \<and>
   msg_type (message (fst (addExample form_tent db_test))) = success \<and>
   (\<forall>k. shard (snd (addExample form_tent db_test)) k = shard db_test k) \<and>
   msg_type (message (fst (addMention form_tent db_test))) = success \<and>
   (\<forall>k. shard (snd (addMention form_tent db_test)) k = shard db_test k) \<and>
   msg_type (message (fst (addDefinition form_tent db_test))) = success \<and>
   (\<forall>k. shard (snd (addDefinition form_tent db_test)) k = shard db_test k)"
proof -
  let ?ws = "shard db_test (slice0 ''tent'' 2)"
  have names: "map w_text ?ws = [''test'']"
    by code_simp
  have absent: "\<forall>w \<in> set ?ws. w_text w \<noteq> ''tent''"
    by code_simp
  have ex_valid: "addExampleSchema form_tent =
      Inr (''tent'', ''We slept in a tent by the lake'', ''Field notes'')"
    by code_simp
  have men_valid: "addMentionSchema form_tent =
      Inr (''tent'', ''Camping basics'', ''https://example.org/tent'')"
    by code_simp
  have def_valid: "addDefinitionSchema form_tent =
      Inr (''tent'', ''a portable shelter made of cloth'', ''Cambridge Dictionary'')"
    by code_simp
  have refs: "map (\<lambda>w. map d_reference (w_definitions w)) ?ws = [[''Oxford Dictionary'']]"
    by code_simp
  have fresh: "\<forall>w \<in> set ?ws. \<forall>d \<in> set (w_definitions w). d_reference d \<noteq> ''Cambridge Dictionary''"
    by code_simp
  show ?thesis
    using names ex_valid men_valid def_valid refs fresh
      updateWhere_no_match_is_silent [OF absent, of "\<lambda>prev. prev\<lparr>w_examples := []\<rparr>" form_tent
        "''We slept in a tent by the lake''" "''Field notes''"
        "''Camping basics''" "''https://example.org/tent''"
        "''a portable shelter made of cloth''" "''Cambridge Dictionary''"]
    by blast
qed

section \<open>Scores never decrease\<close>

lemma all_grow_append: "(\<And>x. R x x) \<Longrightarrow> all_grow R xs (xs @ ys)"
  by (induction xs) simp_all

lemma all_grow_refl: "(\<And>x. R x x) \<Longrightarrow> all_grow R xs xs"
  using all_grow_append [of R xs "[]"] by simp

lemma all_grow_list_update:
  "(\<And>x. R x x) \<Longrightarrow> (i < length xs \<Longrightarrow> R (xs ! i) y) \<Longrightarrow> all_grow R xs (xs[i := y])"
proof (induction xs arbitrary: i)
  case Nil
  then show ?case by simp
next
  case (Cons x xs)
  then show ?case
    by (cases i) (simp_all add: all_grow_refl)
qed

lemma Definition_grows_refl: "Definition_grows d d"
  by (simp add: Definition_grows_def)

lemma Example_grows_refl: "Example_grows e e"
  by (simp add: Example_grows_def)

lemma Mention_grows_refl: "Mention_grows m m"
  by (simp add: Mention_grows_def)

lemma Word_grows_refl: "Word_grows w w"
  by (simp add: Word_grows_def all_grow_refl Definition_grows_refl Example_grows_refl Mention_grows_refl)

lemma Words_grow_refl: "all_grow Word_grows ws ws"
  by (rule all_grow_refl) (rule Word_grows_refl)

lemma Words_grow_append: "all_grow Word_grows ws (ws @ ys)"
  by (rule all_grow_append) (rule Word_grows_refl)

lemma Words_grow_list_update:
  "(i < length ws \<Longrightarrow> Word_grows (ws ! i) w) \<Longrightarrow> all_grow Word_grows ws (ws[i := w])"
  by (rule all_grow_list_update) (rule Word_grows_refl)

lemma Words_grow_updateWhere:
  "(\<And>w. Word_grows w (f w)) \<Longrightarrow> all_grow Word_grows ws (updateWhere p f ws)"
  by (induction ws) (simp_all add: Words_grow_refl Word_grows_refl)

text \<open>The four ways an operation changes a word.\<close>

lemma Word_grows_add_definition: "Word_grows w (w\<lparr>w_definitions := w_definitions w @ [d]\<rparr>)"
  by (simp add: Word_grows_def all_grow_refl all_grow_append Definition_grows_refl Example_grows_refl
      Mention_grows_refl)

lemma Word_grows_add_example: "Word_grows w (w\<lparr>w_examples := w_examples w @ [e]\<rparr>)"
  by (simp add: Word_grows_def all_grow_refl all_grow_append Definition_grows_refl Example_grows_refl
      Mention_grows_refl)

lemma Word_grows_add_mention: "Word_grows w (w\<lparr>w_mentions := w_mentions w @ [m]\<rparr>)"
  by (simp add: Word_grows_def all_grow_refl all_grow_append Definition_grows_refl Example_grows_refl
      Mention_grows_refl)

lemma Word_grows_report: "Word_grows w (w\<lparr>w_NV := w_NV w + 2\<rparr>)"
  by (simp add: Word_grows_def all_grow_refl Definition_grows_refl Example_grows_refl
      Mention_grows_refl)

lemma shards_grow_opened: "all_grow Word_grows (shard db k) (shard (DB_get db key) k)"
  by (simp add: shard_DB_get Words_grow_refl)

lemma shards_grow_put:
  "all_grow Word_grows (shard db key) ws \<Longrightarrow>
   all_grow Word_grows (shard db k) (shard ((DB_get db key)(key \<mapsto> ws)) k)"
  by (simp add: shard_upd shard_DB_get Words_grow_refl)

lemma addWord_grows: "all_grow Word_grows (shard db k) (shard (snd (addWord formData db)) k)"
proof (cases "addDefinitionSchema formData")
  case (Inl es)
  then show ?thesis
    by (simp add: addWord_def Words_grow_refl)
next
  case (Inr v)
  obtain a b c where v: "v = (a, b, c)" by (cases v)
  show ?thesis
    by (simp add: addWord_def Inr v Let_def shards_grow_opened shards_grow_put add_def
        Words_grow_append Words_grow_refl shard_DB_get)
qed

lemma addDefinition_grows: "all_grow Word_grows (shard db k) (shard (snd (addDefinition formData db)) k)"
proof (cases "addDefinitionSchema formData")
  case (Inl es)
  then show ?thesis
    by (simp add: addDefinition_def Words_grow_refl)
next
  case (Inr v)
  obtain a b c where v: "v = (a, b, c)" by (cases v)
  show ?thesis
    by (simp add: addDefinition_def Inr v Let_def shards_grow_opened shards_grow_put
        Words_grow_updateWhere Word_grows_add_definition shard_DB_get Words_grow_refl)
qed

lemma addExample_grows: "all_grow Word_grows (shard db k) (shard (snd (addExample formData db)) k)"
proof (cases "addExampleSchema formData")
  case (Inl es)
  then show ?thesis
    by (simp add: addExample_def Words_grow_refl)
next
  case (Inr v)
  obtain a b c where v: "v = (a, b, c)" by (cases v)
  show ?thesis
    by (simp add: addExample_def Inr v Let_def shards_grow_put
        Words_grow_updateWhere Word_grows_add_example shard_DB_get)
qed

lemma addMention_grows: "all_grow Word_grows (shard db k) (shard (snd (addMention formData db)) k)"
proof (cases "addMentionSchema formData")
  case (Inl es)
  then show ?thesis
    by (simp add: addMention_def Words_grow_refl)
next
  case (Inr v)
  obtain a b c where v: "v = (a, b, c)" by (cases v)
  show ?thesis
    by (simp add: addMention_def Inr v Let_def shards_grow_put
        Words_grow_updateWhere Word_grows_add_mention shard_DB_get)
qed

lemma update_grows:
  "update index (\<lambda>_. w') ws = Some ws' \<Longrightarrow> sf_get ws index = Some w \<Longrightarrow> Word_grows w w' \<Longrightarrow>
   all_grow Word_grows ws ws'"
  by (auto simp add: update_def sf_get_def Words_grow_list_update Words_grow_refl
      split: option.splits if_splits)

lemma Report_grows: "all_grow Word_grows (shard db k) (shard (snd (Report session_user formData db)) k)"
proof (cases "session_user")
  case False
  then show ?thesis
    by (simp add: Report_def Words_grow_refl)
next
  case True
  show ?thesis
  proof (cases "reportSchema formData")
    case (Inl es)
    then show ?thesis
      using True by (simp add: Report_def Words_grow_refl)
  next
    case (Inr v)
    obtain word_text report_element where v: "v = (word_text, report_element)" by (cases v)
    let ?key = "slice0 word_text 2"
    let ?index = "case getIndexOf (\<lambda>word. w_text word = word_text) (shard db ?key) of
                    [] \<Rightarrow> None | i # _ \<Rightarrow> Some i"
    have written: "all_grow Word_grows (shard db k) (shard ((DB_get db ?key)(?key \<mapsto> sf')) k)"
      if "sf_get (shard db ?key) ?index = Some w" "reportElement w report_element = Inr w'"
        "update ?index (\<lambda>_. w') (shard db ?key) = Some sf'" for w w' sf'
    proof -
      from reportElement_Inr [OF that(2)] have "Word_grows w w'"
        by (simp add: Word_grows_report)
      from update_grows [OF that(3) that(1) this] show ?thesis
        by (rule shards_grow_put)
    qed
    show ?thesis
      using True
      by (auto simp add: Report_def Inr v Let_def shard_DB_get shards_grow_opened written Words_grow_refl
          split: option.splits sum.splits simp del: set_simps)
  qed
qed

text \<open>
  C9. Whatever the form, the database and the caller, after \<^verbatim>\<open>addWord\<close>,
  \<^verbatim>\<open>addDefinition\<close>, \<^verbatim>\<open>addExample\<close>, \<^verbatim>\<open>addMention\<close> or \<^verbatim>\<open>Report\<close> every word that a shard
  held is still at its position with the same text, its \<^verbatim>\<open>V\<close> and \<^verbatim>\<open>NV\<close> are not lower
  than before, and each of its definitions, examples and mentions is still at its
  position, the same record with \<^verbatim>\<open>V\<close> and \<^verbatim>\<open>NV\<close> not lower than before.
\<close>

theorem scores_never_decrease:
  "all_grow Word_grows (shard db k) (shard (snd (addWord formData db)) k) \<and>
   all_grow Word_grows (shard db k) (shard (snd (addDefinition formData db)) k) \<and>
   all_grow Word_grows (shard db k) (shard (snd (addExample formData db)) k) \<and>
   all_grow Word_grows (shard db k) (shard (snd (addMention formData db)) k) \<and>
   all_grow Word_grows (shard db k) (shard (snd (Report session_user formData db)) k)"
  by (intro conjI addWord_grows addDefinition_grows addExample_grows addMention_grows Report_grows)

end
